theory Spec2Isabelle
  imports Main "HOL-Library.AList" "HOL-Library.Sublist"
begin

section \<open>JSON values as Python sees them\<close>

text \<open>
  The values \<^verbatim>\<open>json.loads\<close> returns: \<^verbatim>\<open>None\<close>, \<^verbatim>\<open>bool\<close>, \<^verbatim>\<open>int\<close>, \<^verbatim>\<open>str\<close>,
  \<^verbatim>\<open>list\<close> and \<^verbatim>\<open>dict\<close>. A dict keeps its insertion order, so it is an association
  list; a key that is assigned keeps its place, a new key goes to the end
  (\<open>AList.update\<close>), and \<^verbatim>\<open>del\<close> is \<open>AList.delete\<close>. Floating-point numbers are
  not part of the model.
\<close>

datatype json =
    JNull
  | JBool bool
  | JInt int
  | JStr string
  | JArr "json list"
  | JObj "(string \<times> json) list"

text \<open>
  Python's \<^verbatim>\<open>==\<close> on these values: \<^verbatim>\<open>True == 1\<close> and \<^verbatim>\<open>False == 0\<close>, lists are
  compared position by position, dicts by size and then key by key, whatever the order
  of the keys.
\<close>

function (sequential) py_eq :: "json \<Rightarrow> json \<Rightarrow> bool"
  and py_eq_list :: "json list \<Rightarrow> json list \<Rightarrow> bool"
  and py_sub_dict :: "(string \<times> json) list \<Rightarrow> (string \<times> json) list \<Rightarrow> bool"
where
  "py_eq JNull JNull = True"
| "py_eq (JBool a) (JBool b) = (a = b)"
| "py_eq (JBool a) (JInt n) = (n = (if a then 1 else 0))"
| "py_eq (JInt n) (JBool a) = (n = (if a then 1 else 0))"
| "py_eq (JInt m) (JInt n) = (m = n)"
| "py_eq (JStr s) (JStr t) = (s = t)"
| "py_eq (JArr xs) (JArr ys) = py_eq_list xs ys"
| "py_eq (JObj a) (JObj b) = (length a = length b \<and> py_sub_dict a b)"
| "py_eq _ _ = False"
| "py_eq_list [] [] = True"
| "py_eq_list (x # xs) (y # ys) = (py_eq x y \<and> py_eq_list xs ys)"
| "py_eq_list _ _ = False"
| "py_sub_dict [] b = True"
| "py_sub_dict ((k, v) # a) b =
     (case map_of b k of None \<Rightarrow> False | Some w \<Rightarrow> py_eq v w \<and> py_sub_dict a b)"
  by pat_completeness auto
termination
  by (relation "measure (\<lambda>x. case x of
          Inl (a, b) \<Rightarrow> size a
        | Inr (Inl (xs, ys)) \<Rightarrow> size_list size xs
        | Inr (Inr (a, b)) \<Rightarrow> size_list (size_prod (\<lambda>_. 0) size) a)") auto

text \<open>Truthiness, as \<^verbatim>\<open>x or y\<close> tests it.\<close>

fun truthy :: "json \<Rightarrow> bool" where
  "truthy JNull = False"
| "truthy (JBool b) = b"
| "truthy (JInt n) = (n \<noteq> 0)"
| "truthy (JStr s) = (s \<noteq> [])"
| "truthy (JArr xs) = (xs \<noteq> [])"
| "truthy (JObj kvs) = (kvs \<noteq> [])"

text \<open>\<^verbatim>\<open>k in s\<close> for two strings: \<open>k\<close> occurs in \<open>s\<close> as a contiguous piece.\<close>

fun str_contains :: "string \<Rightarrow> string \<Rightarrow> bool" where
  "str_contains k [] = (k = [])"
| "str_contains k (c # cs) = (prefix k (c # cs) \<or> str_contains k cs)"

datatype py_error =
    TypeError
  | IndexError
  | AttributeError
  | ValueError
  | UnicodeDecodeError
  | OSError string

section \<open>The configuration file\<close>

text \<open>
  A file's text is kept as what the code can tell about it:
  \<^item> \<open>Empty\<close>: the text is \<^verbatim>\<open>""\<close>;
  \<^item> \<open>Whitespace\<close>: the text is not empty, and \<^verbatim>\<open>text.strip()\<close> is (a file holding
    only a newline, say);
  \<^item> \<open>Unparsable\<close>: \<^verbatim>\<open>text.strip()\<close> is not empty and \<^verbatim>\<open>json.loads\<close> raises
    \<^verbatim>\<open>JSONDecodeError\<close>;
  \<^item> \<open>Document j\<close>: \<^verbatim>\<open>json.loads\<close> returns \<open>j\<close>.
  On the first two \<^verbatim>\<open>json.loads\<close> raises \<^verbatim>\<open>JSONDecodeError\<close> as well.
  \<^verbatim>\<open>json.dumps(config, indent=2) + "\n"\<close> is a \<open>Document config\<close>.

  A path holds no file (\<open>Missing\<close>), a file whose read raises \<^verbatim>\<open>OSError\<close>
  (\<open>Unreadable\<close>), a file whose bytes are not UTF-8, so that \<^verbatim>\<open>read_text\<close> raises
  \<^verbatim>\<open>UnicodeDecodeError\<close> (\<open>Undecodable\<close>), or a text.
\<close>

datatype file_text =
    Empty
  | Whitespace
  | Unparsable
  | Document json

datatype file_node =
    Missing
  | Unreadable
  | Undecodable
  | Readable file_text

text \<open>
  The state of one path: what is there, and the values \<^verbatim>\<open>write_text\<close> has written to
  it, latest first. A call that leaves \<open>writes\<close> as it found it has not touched the file.
  \<^verbatim>\<open>mkdir\<close> and \<^verbatim>\<open>write_text\<close> are taken to succeed: the two functions have no
  handler around them.
\<close>

record config_file =
  node :: file_node
  writes :: "json list"

definition write_text :: "json \<Rightarrow> config_file \<Rightarrow> config_file" where
  "write_text config f = f\<lparr>node := Readable (Document config), writes := config # writes f\<rparr>"

text \<open>
  The navigation and the final assignment of \<^verbatim>\<open>merge_json_config\<close>, on the parsed
  value. Python walks down by reference and assigns in place; here the updated value is
  rebuilt on the way back: \<open>child\<close> is \<^verbatim>\<open>current[key]\<close> after the loop body (the
  fresh \<^verbatim>\<open>{}\<close> when the key was missing), and it goes back under \<open>key\<close>, at the
  key's place or at the end when the key is new. \<open>Inr (False, _)\<close> is "already
  configured", \<open>Inr (True, c)\<close> is the value to write. Anything but a dict on the
  path raises \<^verbatim>\<open>TypeError\<close> (from \<^verbatim>\<open>in\<close>, from the item assignment or from the
  indexing), and an empty key path raises \<^verbatim>\<open>IndexError\<close> at \<^verbatim>\<open>key_path[-1]\<close>.
\<close>

fun merge_at :: "json \<Rightarrow> string list \<Rightarrow> json \<Rightarrow> py_error + (bool \<times> json)" where
  "merge_at current [] v = Inl IndexError"
| "merge_at current [final_key] v =
     (case current of
        JObj kvs \<Rightarrow>
          (case map_of kvs final_key of
             Some w \<Rightarrow> if py_eq w v then Inr (False, current)
                       else Inr (True, JObj (AList.update final_key v kvs))
           | None \<Rightarrow> Inr (True, JObj (AList.update final_key v kvs)))
      | _ \<Rightarrow> Inl TypeError)"
| "merge_at current (key # keys) v =
     (case current of
        JObj kvs \<Rightarrow>
          (let child = (case map_of kvs key of None \<Rightarrow> JObj [] | Some c \<Rightarrow> c)
           in case merge_at child keys v of
                Inl e \<Rightarrow> Inl e
              | Inr (changed, child') \<Rightarrow> Inr (changed, JObj (AList.update key child' kvs)))
      | _ \<Rightarrow> Inl TypeError)"

text \<open>
  Lines 164 to 173: the configuration the merge starts from. \<open>Inr None\<close> is the early
  \<^verbatim>\<open>return False\<close> of the \<^verbatim>\<open>except\<close> clause, which catches \<^verbatim>\<open>JSONDecodeError\<close> and
  \<^verbatim>\<open>OSError\<close> and nothing else.
\<close>

fun load_config :: "file_node \<Rightarrow> py_error + json option" where
  "load_config Missing = Inr (Some (JObj []))"
| "load_config Unreadable = Inr None"
| "load_config Undecodable = Inl UnicodeDecodeError"
| "load_config (Readable Empty) = Inr (Some (JObj []))"
| "load_config (Readable Whitespace) = Inr (Some (JObj []))"
| "load_config (Readable Unparsable) = Inr None"
| "load_config (Readable (Document j)) = Inr (Some j)"

definition merge_json_config ::
  "config_file \<Rightarrow> string list \<Rightarrow> json \<Rightarrow> (py_error + bool) \<times> config_file" where
  "merge_json_config f key_path v =
     (case load_config (node f) of
        Inl e \<Rightarrow> (Inl e, f)
      | Inr None \<Rightarrow> (Inr False, f)
      | Inr (Some config) \<Rightarrow>
          (case merge_at config key_path v of
             Inl e \<Rightarrow> (Inl e, f)
           | Inr (False, _) \<Rightarrow> (Inr False, f)
           | Inr (True, config') \<Rightarrow> (Inr True, write_text config' f)))"

text \<open>
  \<^verbatim>\<open>remove_json_config_key\<close> on the parsed value: \<open>Inr None\<close> is "not found" (the
  function returns \<^verbatim>\<open>False\<close>), \<open>Inr (Some c)\<close> the value to write. Here a list or a
  string on the path does not raise as long as the key is not in it.
\<close>

fun remove_at :: "json \<Rightarrow> string list \<Rightarrow> py_error + json option" where
  "remove_at current [] = Inl IndexError"
| "remove_at current [final_key] =
     (case current of
        JObj kvs \<Rightarrow>
          if final_key \<notin> fst ` set kvs then Inr None
          else Inr (Some (JObj (AList.delete final_key kvs)))
      | JArr xs \<Rightarrow> if JStr final_key \<notin> set xs then Inr None else Inl TypeError
      | JStr s \<Rightarrow> if \<not> str_contains final_key s then Inr None else Inl TypeError
      | _ \<Rightarrow> Inl TypeError)"
| "remove_at current (key # keys) =
     (case current of
        JObj kvs \<Rightarrow>
          (case map_of kvs key of
             None \<Rightarrow> Inr None
           | Some child \<Rightarrow>
               (case remove_at child keys of
                  Inl e \<Rightarrow> Inl e
                | Inr None \<Rightarrow> Inr None
                | Inr (Some child') \<Rightarrow> Inr (Some (JObj (AList.update key child' kvs)))))
      | JArr xs \<Rightarrow> if JStr key \<notin> set xs then Inr None else Inl TypeError
      | JStr s \<Rightarrow> if \<not> str_contains key s then Inr None else Inl TypeError
      | _ \<Rightarrow> Inl TypeError)"

definition remove_json_config_key ::
  "config_file \<Rightarrow> string list \<Rightarrow> (py_error + bool) \<times> config_file" where
  "remove_json_config_key f key_path =
     (case node f of
        Missing \<Rightarrow> (Inr False, f)
      | Unreadable \<Rightarrow> (Inr False, f)
      | Undecodable \<Rightarrow> (Inl UnicodeDecodeError, f)
      | Readable (Document config) \<Rightarrow>
          (case remove_at config key_path of
             Inl e \<Rightarrow> (Inl e, f)
           | Inr None \<Rightarrow> (Inr False, f)
           | Inr (Some config') \<Rightarrow> (Inr True, write_text config' f))
      | Readable _ \<Rightarrow> (Inr False, f))"

text \<open>The keys of a dict, in order; no keys for any other value.\<close>

fun key_set :: "json \<Rightarrow> string list" where
  "key_set (JObj kvs) = map fst kvs"
| "key_set _ = []"

fun node_keys :: "file_node \<Rightarrow> string list" where
  "node_keys (Readable (Document j)) = key_set j"
| "node_keys _ = []"

text \<open>Dicts as Python builds them: no key twice, at any depth.\<close>

function (sequential) wf_json :: "json \<Rightarrow> bool"
  and wf_list :: "json list \<Rightarrow> bool"
  and wf_dict :: "(string \<times> json) list \<Rightarrow> bool"
where
  "wf_json (JArr xs) = wf_list xs"
| "wf_json (JObj kvs) = wf_dict kvs"
| "wf_json _ = True"
| "wf_list [] = True"
| "wf_list (x # xs) = (wf_json x \<and> wf_list xs)"
| "wf_dict [] = True"
| "wf_dict ((k, v) # kvs) = (k \<notin> fst ` set kvs \<and> wf_json v \<and> wf_dict kvs)"
  by pat_completeness auto
termination
  by (relation "measure (\<lambda>x. case x of
          Inl a \<Rightarrow> size a
        | Inr (Inl xs) \<Rightarrow> size_list size xs
        | Inr (Inr a) \<Rightarrow> size_list (size_prod (\<lambda>_. 0) size) a)") auto

text \<open>Following a key path through nested dicts, as the loops of both functions do.\<close>

fun lookup_path :: "json \<Rightarrow> string list \<Rightarrow> json option" where
  "lookup_path c [] = Some c"
| "lookup_path c (k # ks) =
     (case c of
        JObj kvs \<Rightarrow> (case map_of kvs k of None \<Rightarrow> None | Some child \<Rightarrow> lookup_path child ks)
      | _ \<Rightarrow> None)"

text \<open>The entry the installer merges, and three files it may find.\<close>

definition server_entry :: json where
  "server_entry = JObj [(''command'', JStr ''python''), (''args'', JArr [JStr ''mcp_server.py''])]"

definition empty_object_file :: config_file where
  "empty_object_file = \<lparr>node = Readable (Document (JObj [])), writes = []\<rparr>"

definition array_file :: config_file where
  "array_file = \<lparr>node = Readable (Document (JArr [])), writes = []\<rparr>"

definition newline_file :: config_file where
  "newline_file = \<lparr>node = Readable Whitespace, writes = []\<rparr>"

definition garbage_file :: config_file where
  "garbage_file = \<lparr>node = Readable Unparsable, writes = []\<rparr>"

definition desktop_file :: config_file where
  "desktop_file =
     \<lparr>node = Readable (Document (JObj [(''theme'', JStr ''dark''),
                (''mcpServers'', JObj [(''other'', JObj [])])])),
      writes = []\<rparr>"

section \<open>The command channel\<close>

text \<open>
  The channel directory: the bytes at \<^verbatim>\<open>command.json\<close> (if the file exists), what is at
  \<^verbatim>\<open>response.json\<close>, and the temporary files \<^verbatim>\<open>mkstemp\<close> has made in the directory,
  by name. Strings are byte strings (UTF-8).
\<close>

record ipc_dir =
  command :: "string option"
  response :: file_node
  temp :: "string \<rightharpoonup> string"

text \<open>
  \<^verbatim>\<open>TIMEOUT\<close> and \<^verbatim>\<open>POLL_INTERVAL\<close>, in ticks of the monotonic clock (integers here,
  floats in the source).
\<close>

record settings =
  TIMEOUT :: int
  POLL_INTERVAL :: int

text \<open>
  Where lines 120 to 124 can raise \<^verbatim>\<open>OSError\<close>, with the message of the error: in
  \<^verbatim>\<open>mkstemp\<close>, while writing (after so many bytes have reached the temporary file), or
  in \<^verbatim>\<open>os.replace\<close>.
\<close>

datatype fault =
    NoFault
  | MkstempFails string
  | WriteFails nat string
  | ReplaceFails string

text \<open>
  What one call meets and does not choose: whether \<^verbatim>\<open>mkdir\<close> raises, the identifier
  \<^verbatim>\<open>uuid4\<close> draws, whether the first \<^verbatim>\<open>unlink\<close> raises \<^verbatim>\<open>OSError\<close>, the name
  \<^verbatim>\<open>mkstemp\<close> picks, the fault of the write, the readings of \<^verbatim>\<open>time.monotonic()\<close>
  in the order of the calls (reading \<open>0\<close> is \<^verbatim>\<open>start\<close>, reading \<open>Suc i\<close> the test of
  cycle \<open>i\<close>), what the host has put at the response path since the cycle before
  (\<open>None\<close>: it has not touched it), and whether the \<^verbatim>\<open>unlink\<close> of cycle \<open>i\<close> raises
  \<^verbatim>\<open>OSError\<close>.
\<close>

record env =
  mkdir_error :: "string option"
  uuid4 :: string
  unlink_error :: bool
  tmp_name :: string
  fault :: fault
  monotonic :: "nat \<Rightarrow> int"
  host :: "nat \<Rightarrow> file_node option"
  poll_unlink_error :: "nat \<Rightarrow> bool"

text \<open>Line 113: \<^verbatim>\<open>{"id": cmd_id, "action": action, "params": params or {}}\<close>.\<close>

definition command_envelope :: "string \<Rightarrow> string \<Rightarrow> json option \<Rightarrow> json" where
  "command_envelope cmd_id action params =
     JObj [(''id'', JStr cmd_id),
           (''action'', JStr action),
           (''params'', case params of
                          None \<Rightarrow> JObj []
                        | Some p \<Rightarrow> if truthy p then p else JObj [])]"

text \<open>The two dicts the function makes up itself (lines 126 to 129 and 144 to 151).\<close>

definition failure :: "string \<Rightarrow> string \<Rightarrow> json" where
  "failure cmd_id msg =
     JObj [(''id'', JStr cmd_id), (''success'', JBool False), (''result'', JNull),
           (''error'', JStr msg)]"

definition write_failure :: "string \<Rightarrow> string \<Rightarrow> json" where
  "write_failure cmd_id e = failure cmd_id (''Failed to write command file: '' @ e)"

definition timeout_message :: string where
  "timeout_message =
     ''Timeout '' @ [CHR 0xE2, CHR 0x80, CHR 0x94] @ '' REAPER did not respond. '' @
     ''Make sure reaper_listener.lua is running inside REAPER. '' @
     ''Run '' @ [CHR 0x27] @ ''python mcp_server.py check'' @ [CHR 0x27] @ '' for diagnostics.''"

definition timeout_response :: "string \<Rightarrow> json" where
  "timeout_response cmd_id = failure cmd_id timeout_message"

text \<open>
  Lines 120 to 124. The result is the message of the \<^verbatim>\<open>OSError\<close>, if one was raised,
  and every state the directory goes through, in order: the temporary file grows byte by
  byte (any buffering shows a part of these states), and \<^verbatim>\<open>os.replace\<close> moves it onto
  the command path in one step.
\<close>

definition writing :: "ipc_dir \<Rightarrow> string \<Rightarrow> string \<Rightarrow> nat \<Rightarrow> ipc_dir" where
  "writing d name text n = d\<lparr>temp := (temp d)(name \<mapsto> take n text)\<rparr>"

definition replaced :: "ipc_dir \<Rightarrow> string \<Rightarrow> string \<Rightarrow> ipc_dir" where
  "replaced d name text = d\<lparr>command := Some text, temp := (temp d)(name := None)\<rparr>"

definition write_command ::
  "(json \<Rightarrow> string) \<Rightarrow> env \<Rightarrow> json \<Rightarrow> ipc_dir \<Rightarrow> string option \<times> ipc_dir list" where
  "write_command dumps e cmd d =
     (let text = dumps cmd; name = tmp_name e in
      case fault e of
        MkstempFails msg \<Rightarrow> (Some msg, [d])
      | WriteFails n msg \<Rightarrow>
          (Some msg, d # map (writing d name text) [0..<Suc (min n (length text))])
      | ReplaceFails msg \<Rightarrow>
          (Some msg, d # map (writing d name text) [0..<Suc (length text)])
      | NoFault \<Rightarrow>
          (None, d # map (writing d name text) [0..<Suc (length text)] @
                 [replaced d name text]))"

text \<open>
  One turn of the loop body, lines 133 to 141: the cycle returns the response, raises, or
  falls through to \<^verbatim>\<open>time.sleep\<close>. The \<^verbatim>\<open>except\<close> clause catches
  \<^verbatim>\<open>JSONDecodeError\<close> and \<^verbatim>\<open>OSError\<close>; \<^verbatim>\<open>response.get\<close> on a value that is not a
  dict raises \<^verbatim>\<open>AttributeError\<close>.
\<close>

datatype cycle_result =
    Return json ipc_dir
  | Raise py_error ipc_dir
  | Sleep ipc_dir

definition observed :: "env \<Rightarrow> nat \<Rightarrow> ipc_dir \<Rightarrow> ipc_dir" where
  "observed e i d = (case host e i of None \<Rightarrow> d | Some n \<Rightarrow> d\<lparr>response := n\<rparr>)"

definition get_id :: "(string \<times> json) list \<Rightarrow> json" where
  "get_id kvs = (case map_of kvs ''id'' of None \<Rightarrow> JNull | Some v \<Rightarrow> v)"

definition poll_once :: "env \<Rightarrow> string \<Rightarrow> nat \<Rightarrow> ipc_dir \<Rightarrow> cycle_result" where
  "poll_once e cmd_id i d =
     (let d1 = observed e i d in
      case response d1 of
        Missing \<Rightarrow> Sleep d1
      | Unreadable \<Rightarrow> Sleep d1
      | Undecodable \<Rightarrow> Raise UnicodeDecodeError d1
      | Readable content \<Rightarrow>
          if poll_unlink_error e i then Sleep d1
          else
            (let d2 = d1\<lparr>response := Missing\<rparr> in
             case content of
               Document (JObj kvs) \<Rightarrow>
                 if py_eq (get_id kvs) (JStr cmd_id) then Return (JObj kvs) d2 else Sleep d2
             | Document _ \<Rightarrow> Raise AttributeError d2
             | _ \<Rightarrow> Sleep d2))"

text \<open>
  Lines 131 to 151: the loop, from cycle \<open>i\<close> on. It has no bound of its own, so it is a
  partial function: \<open>None\<close> is a loop that never ends. \<^verbatim>\<open>time.sleep\<close> raises
  \<^verbatim>\<open>ValueError\<close> on a negative length.
\<close>

partial_function (option) poll_loop ::
  "settings \<Rightarrow> env \<Rightarrow> string \<Rightarrow> nat \<Rightarrow> ipc_dir \<Rightarrow> ((py_error + json) \<times> ipc_dir) option" where
  "poll_loop cfg e cmd_id i d =
     (if monotonic e (Suc i) - monotonic e 0 < TIMEOUT cfg then
        (case poll_once e cmd_id i d of
           Return r d' \<Rightarrow> Some (Inr r, d')
         | Raise x d' \<Rightarrow> Some (Inl x, d')
         | Sleep d' \<Rightarrow>
             if POLL_INTERVAL cfg < 0 then Some (Inl ValueError, d')
             else poll_loop cfg e cmd_id (Suc i) d')
      else Some (Inr (timeout_response cmd_id), d))"

text \<open>
  Lines 111 to 129, up to the loop: the directory after the first \<^verbatim>\<open>unlink\<close>, and the
  write of the command.
\<close>

definition unlinked :: "env \<Rightarrow> ipc_dir \<Rightarrow> ipc_dir" where
  "unlinked e d = (if unlink_error e then d else d\<lparr>response := Missing\<rparr>)"

definition publish ::
  "(json \<Rightarrow> string) \<Rightarrow> env \<Rightarrow> string \<Rightarrow> json option \<Rightarrow> ipc_dir \<Rightarrow> string option \<times> ipc_dir list" where
  "publish dumps e action params d =
     write_command dumps e (command_envelope (uuid4 e) action params) (unlinked e d)"

definition send_command ::
  "(json \<Rightarrow> string) \<Rightarrow> settings \<Rightarrow> env \<Rightarrow> string \<Rightarrow> json option \<Rightarrow> ipc_dir \<Rightarrow>
     ((py_error + json) \<times> ipc_dir) option" where
  "send_command dumps cfg e action params d =
     (case mkdir_error e of
        Some msg \<Rightarrow> Some (Inl (OSError msg), d)
      | None \<Rightarrow>
          (case publish dumps e action params d of
             (Some msg, states) \<Rightarrow> Some (Inr (write_failure (uuid4 e) msg), last states)
           | (None, states) \<Rightarrow> poll_loop cfg e (uuid4 e) 0 (last states)))"

text \<open>
  The first \<open>n\<close> turns of the loop body from cycle \<open>i\<close> on, without the test of the
  clock: the turns stop at the first cycle that returns or raises, and \<open>Sleep\<close> is left
  when every one of them has fallen through to \<^verbatim>\<open>time.sleep\<close>.
\<close>

fun poll_cycles :: "env \<Rightarrow> string \<Rightarrow> nat \<Rightarrow> nat \<Rightarrow> ipc_dir \<Rightarrow> cycle_result" where
  "poll_cycles e cmd_id i 0 d = Sleep d"
| "poll_cycles e cmd_id i (Suc n) d =
     (case poll_once e cmd_id i d of
        Sleep d' \<Rightarrow> poll_cycles e cmd_id (Suc i) n d'
      | Return r d' \<Rightarrow> Return r d'
      | Raise x d' \<Rightarrow> Raise x d')"

text \<open>
  A run to try the channel on: a serialiser, the settings, a directory with nothing in it
  and one where an earlier call has left its command and a response, and environments:
  one where the host never answers, and variants of it.
\<close>

definition sample_dumps :: "json \<Rightarrow> string" where
  "sample_dumps j = (case j of JObj kvs \<Rightarrow> concat (map (\<lambda>(k, v). k @ '';'') kvs) | _ \<Rightarrow> ''?'')"

definition sample_settings :: settings where
  "sample_settings = \<lparr>TIMEOUT = 100, POLL_INTERVAL = 30\<rparr>"

definition empty_dir :: ipc_dir where
  "empty_dir = \<lparr>command = None, response = Missing, temp = Map.empty\<rparr>"

definition stale_response :: file_node where
  "stale_response =
     Readable (Document (JObj [(''id'', JStr ''old-id''), (''success'', JBool True),
                               (''result'', JNull)]))"

definition stale_dir :: ipc_dir where
  "stale_dir = \<lparr>command = Some ''old'', response = stale_response, temp = Map.empty\<rparr>"

definition quiet_env :: env where
  "quiet_env =
     \<lparr>mkdir_error = None, uuid4 = ''new-id'', unlink_error = False, tmp_name = ''tmpq3x.tmp'',
      fault = NoFault, monotonic = (\<lambda>k. 30 * int k), host = (\<lambda>i. None),
      poll_unlink_error = (\<lambda>i. False)\<rparr>"

definition locked_env :: env where
  "locked_env = quiet_env\<lparr>unlink_error := True\<rparr>"

definition full_disk_env :: env where
  "full_disk_env = quiet_env\<lparr>fault := WriteFails 3 ''No space left on device''\<rparr>"

definition array_env :: env where
  "array_env =
     quiet_env\<lparr>host := (\<lambda>i. if i = 0 then Some (Readable (Document (JArr []))) else None)\<rparr>"

definition garbage_env :: env where
  "garbage_env = quiet_env\<lparr>host := (\<lambda>i. if i = 0 then Some (Readable Unparsable) else None)\<rparr>"

definition number_env :: env where
  "number_env =
     quiet_env\<lparr>host := (\<lambda>i. if i = 2 then Some (Readable (Document (JInt 42))) else None)\<rparr>"

definition pong :: "(string \<times> json) list" where
  "pong = [(''id'', JStr ''new-id''), (''success'', JBool True),
           (''result'', JObj [(''ok'', JBool True)])]"

definition answering_env :: env where
  "answering_env =
     quiet_env\<lparr>host := (\<lambda>i. if i = 0 then Some (Readable Unparsable)
                              else if i = 1 then Some (Readable (Document (JObj pong)))
                              else None)\<rparr>"

definition stuck_unlink_env :: env where
  "stuck_unlink_env =
     quiet_env\<lparr>host := (\<lambda>i. if i = 0 then Some (Readable (Document (JObj pong))) else None),
               poll_unlink_error := (\<lambda>i. True)\<rparr>"

section \<open>Facts about Python equality and the two walks\<close>

lemma py_sub_dict_mono:
  "py_sub_dict a b \<Longrightarrow> k \<notin> fst ` set a \<Longrightarrow> py_sub_dict a ((k, v) # b)"
  by (induction a) (auto split: option.splits)

lemma py_eq_refl_aux:
  "wf_json v \<Longrightarrow> py_eq v v"
  "wf_list xs \<Longrightarrow> py_eq_list xs xs"
  "wf_dict kvs \<Longrightarrow> py_sub_dict kvs kvs"
  by (induction v and xs and kvs rule: wf_json_wf_list_wf_dict.induct)
     (auto simp: py_sub_dict_mono)

lemma py_eq_refl: "wf_json v \<Longrightarrow> py_eq v v"
  by (rule py_eq_refl_aux)

lemma py_eq_JStr: "py_eq v (JStr s) = (v = JStr s)"
  by (cases v) auto

lemma merge_at_again:
  "merge_at c kp v = Inr (True, c') \<Longrightarrow> py_eq v v \<Longrightarrow> \<exists>c''. merge_at c' kp v = Inr (False, c'')"
proof (induction c kp v arbitrary: c' rule: merge_at.induct)
  case (1 current v)
  then show ?case by simp
next
  case (2 current final_key v)
  then show ?case
    by (auto split: json.splits option.splits if_splits simp: update_conv')
next
  case (3 current key k2 keys v)
  from "3.prems"(1) obtain kvs where cur: "current = JObj kvs"
    by (cases current) auto
  define child where "child = (case map_of kvs key of None \<Rightarrow> JObj [] | Some c \<Rightarrow> c)"
  from "3.prems"(1) cur obtain ch' where
    sub: "merge_at child (k2 # keys) v = Inr (True, ch')" and
    c': "c' = JObj (AList.update key ch' kvs)"
    by (auto simp: child_def Let_def split: sum.splits)
  from "3.IH"[OF cur child_def sub "3.prems"(2)] obtain c'' where
    "merge_at ch' (k2 # keys) v = Inr (False, c'')" by blast
  then show ?case
    by (simp add: c' update_conv')
qed

lemma merge_then_remove:
  "kp \<noteq> [] \<Longrightarrow> lookup_path c (butlast kp) = Some (JObj kvs) \<Longrightarrow> last kp \<notin> fst ` set kvs \<Longrightarrow>
   \<exists>c1. merge_at c kp v = Inr (True, c1) \<and> remove_at c1 kp = Inr (Some c)"
proof (induction c kp v rule: merge_at.induct)
  case (1 current v)
  then show ?case by simp
next
  case (2 current final_key v)
  show ?case
  proof -
    from 2 have cur: "current = JObj kvs" and nk: "final_key \<notin> fst ` set kvs" by simp_all
    from nk have "map_of kvs final_key = None" by (simp add: map_of_eq_None_iff)
    then show ?thesis
      using nk by (simp add: cur dom_update delete_update_same)
  qed
next
  case (3 current key k2 keys v)
  from "3.prems"(2) obtain top where cur: "current = JObj top"
    by (cases current) auto
  from "3.prems"(2) cur obtain child where
    ch: "map_of top key = Some child" and
    lp: "lookup_path child (butlast (k2 # keys)) = Some (JObj kvs)"
    by (auto split: option.splits)
  have chd: "child = (case map_of top key of None \<Rightarrow> JObj [] | Some c \<Rightarrow> c)"
    by (simp add: ch)
  from "3.prems"(3) have lst: "last (k2 # keys) \<notin> fst ` set kvs" by simp
  from "3.IH"[OF cur chd _ lp lst] obtain c1 where
    m: "merge_at child (k2 # keys) v = Inr (True, c1)" and
    r: "remove_at c1 (k2 # keys) = Inr (Some child)" by auto
  show ?case
    using m r ch by (simp add: cur update_conv' update_triv)
qed

lemma merge_twice:
  assumes "wf_json v"
  shows "snd (merge_json_config (snd (merge_json_config f kp v)) kp v) = snd (merge_json_config f kp v)"
    and "fst (merge_json_config f kp v) = Inr b \<Longrightarrow>
         fst (merge_json_config (snd (merge_json_config f kp v)) kp v) = Inr False"
proof -
  have refl: "py_eq v v" using assms by (rule py_eq_refl)
  have *: "merge_json_config (snd (merge_json_config f kp v)) kp v =
           (case fst (merge_json_config f kp v) of Inl e \<Rightarrow> Inl e | Inr _ \<Rightarrow> Inr False,
            snd (merge_json_config f kp v))"
  proof (cases "load_config (node f)")
    case (Inl e)
    then show ?thesis by (simp add: merge_json_config_def)
  next
    case (Inr lo)
    show ?thesis
    proof (cases lo)
      case None
      with Inr show ?thesis by (simp add: merge_json_config_def)
    next
      case (Some config)
      show ?thesis
      proof (cases "merge_at config kp v")
        case (Inl e)
        with Inr Some show ?thesis by (simp add: merge_json_config_def)
      next
        case mr: (Inr r)
        obtain ch c' where r: "r = (ch, c')" by (cases r)
        show ?thesis
        proof (cases ch)
          case False
          with Inr Some mr r show ?thesis by (simp add: merge_json_config_def)
        next
          case True
          with mr r have m1: "merge_at config kp v = Inr (True, c')" by simp
          from merge_at_again[OF m1 refl] obtain c'' where
            m2: "merge_at c' kp v = Inr (False, c'')" by blast
          from Inr Some m1 have first:
            "merge_json_config f kp v = (Inr True, write_text c' f)"
            by (simp add: merge_json_config_def)
          have "merge_json_config (write_text c' f) kp v = (Inr False, write_text c' f)"
            using m2 by (simp add: merge_json_config_def write_text_def)
          with first show ?thesis by simp
        qed
      qed
    qed
  qed
  show "snd (merge_json_config (snd (merge_json_config f kp v)) kp v) = snd (merge_json_config f kp v)"
    by (simp add: *)
  show "fst (merge_json_config f kp v) = Inr b \<Longrightarrow>
         fst (merge_json_config (snd (merge_json_config f kp v)) kp v) = Inr False"
    by (simp add: *)
qed

lemma node_keys_loaded:
  "load_config n = Inr (Some c) \<Longrightarrow> node_keys n = key_set c"
  by (induction n rule: load_config.induct) auto

lemma merge_remove_file:
  assumes "kp \<noteq> []" "load_config (node f) = Inr (Some c)"
    "lookup_path c (butlast kp) = Some (JObj kvs)" "last kp \<notin> fst ` set kvs"
  shows "fst (merge_json_config f kp v) = Inr True"
    and "fst (remove_json_config_key (snd (merge_json_config f kp v)) kp) = Inr True"
    and "node (snd (remove_json_config_key (snd (merge_json_config f kp v)) kp)) = Readable (Document c)"
proof -
  from merge_then_remove[OF assms(1,3,4), where v = v] obtain c1 where
    m: "merge_at c kp v = Inr (True, c1)" and r: "remove_at c1 kp = Inr (Some c)" by blast
  have first: "merge_json_config f kp v = (Inr True, write_text c1 f)"
    using assms(2) m by (simp add: merge_json_config_def)
  show "fst (merge_json_config f kp v) = Inr True" by (simp add: first)
  show "fst (remove_json_config_key (snd (merge_json_config f kp v)) kp) = Inr True"
    using r by (simp add: first remove_json_config_key_def write_text_def)
  show "node (snd (remove_json_config_key (snd (merge_json_config f kp v)) kp)) = Readable (Document c)"
    using r by (simp add: first remove_json_config_key_def write_text_def)
qed


lemmas config_eval =
  merge_json_config_def remove_json_config_key_def write_text_def server_entry_def
  empty_object_file_def array_file_def newline_file_def garbage_file_def desktop_file_def


section \<open>The configuration merge\<close>

text \<open>
  Claim C8, as the code has it. For a value \<open>v\<close> that is a Python value (no key twice in
  a dict): merging the same key path and value a second time never writes, so the file
  and the log of writes stay as the first call left them; and when the first call
  returned, the second returns \<^verbatim>\<open>False\<close>. Removing the key after a merge gives back the
  configuration the merge started from, and so its keys, when the merge had nothing to
  create on the way (the dicts above the last key were there) and the last key was not
  there before.
\<close>

theorem merge_idempotent_remove_restores:
  assumes "wf_json v"
  shows "snd (merge_json_config (snd (merge_json_config f kp v)) kp v) = snd (merge_json_config f kp v)
    \<and> (\<forall>b. fst (merge_json_config f kp v) = Inr b \<longrightarrow>
           fst (merge_json_config (snd (merge_json_config f kp v)) kp v) = Inr False)
    \<and> (kp \<noteq> [] \<and> load_config (node f) = Inr (Some c) \<and>
         lookup_path c (butlast kp) = Some (JObj kvs) \<and> last kp \<notin> fst ` set kvs \<longrightarrow>
           fst (merge_json_config f kp v) = Inr True \<and>
           fst (remove_json_config_key (snd (merge_json_config f kp v)) kp) = Inr True \<and>
           node (snd (remove_json_config_key (snd (merge_json_config f kp v)) kp)) =
             Readable (Document c) \<and>
           node_keys (node (snd (remove_json_config_key (snd (merge_json_config f kp v)) kp))) =
             node_keys (node f))"
proof (intro conjI allI impI)
  show "snd (merge_json_config (snd (merge_json_config f kp v)) kp v) = snd (merge_json_config f kp v)"
    using assms by (rule merge_twice(1))
next
  fix b assume "fst (merge_json_config f kp v) = Inr b"
  with assms show "fst (merge_json_config (snd (merge_json_config f kp v)) kp v) = Inr False"
    by (rule merge_twice(2))
next
  assume h: "kp \<noteq> [] \<and> load_config (node f) = Inr (Some c) \<and>
         lookup_path c (butlast kp) = Some (JObj kvs) \<and> last kp \<notin> fst ` set kvs"
  then have a: "kp \<noteq> []" "load_config (node f) = Inr (Some c)"
    "lookup_path c (butlast kp) = Some (JObj kvs)" "last kp \<notin> fst ` set kvs" by simp_all
  show "fst (merge_json_config f kp v) = Inr True"
    using a by (rule merge_remove_file(1))
  show "fst (remove_json_config_key (snd (merge_json_config f kp v)) kp) = Inr True"
    using a by (rule merge_remove_file(2))
  show n: "node (snd (remove_json_config_key (snd (merge_json_config f kp v)) kp)) = Readable (Document c)"
    using a by (rule merge_remove_file(3))
  show "node_keys (node (snd (remove_json_config_key (snd (merge_json_config f kp v)) kp))) =
             node_keys (node f)"
    using node_keys_loaded[OF a(2)] by (simp add: n)
qed


text \<open>
  The theorem at the Claude Desktop file of a user who has another server configured:
  the merge adds the entry under \<^verbatim>\<open>mcpServers\<close>, a second merge is refused and writes
  nothing, and the removal gives the file its first content back.
\<close>

theorem merge_idempotent_remove_restores_witness:
  "wf_json server_entry \<and>
   merge_json_config desktop_file [''mcpServers'', ''reaper''] server_entry =
     (Inr True, \<lparr>node = Readable (Document (JObj [(''theme'', JStr ''dark''),
         (''mcpServers'', JObj [(''other'', JObj []), (''reaper'', server_entry)])])),
        writes = [JObj [(''theme'', JStr ''dark''),
         (''mcpServers'', JObj [(''other'', JObj []), (''reaper'', server_entry)])]]\<rparr>) \<and>
   fst (merge_json_config (snd (merge_json_config desktop_file [''mcpServers'', ''reaper''] server_entry))
         [''mcpServers'', ''reaper''] server_entry) = Inr False \<and>
   snd (merge_json_config (snd (merge_json_config desktop_file [''mcpServers'', ''reaper''] server_entry))
         [''mcpServers'', ''reaper''] server_entry) =
     snd (merge_json_config desktop_file [''mcpServers'', ''reaper''] server_entry) \<and>
   node (snd (remove_json_config_key
         (snd (merge_json_config desktop_file [''mcpServers'', ''reaper''] server_entry))
         [''mcpServers'', ''reaper''])) = node desktop_file"
  using merge_idempotent_remove_restores [of server_entry desktop_file "[''mcpServers'', ''reaper'']"
      "JObj [(''theme'', JStr ''dark''), (''mcpServers'', JObj [(''other'', JObj [])])]"
      "[(''other'', JObj [])]"]
  by (simp add: config_eval)


text \<open>
  Claim C8 as the spec words it fails twice. On the file \<^verbatim>\<open>{}\<close> the merge of
  \<^verbatim>\<open>["mcpServers", "reaper"]\<close> creates \<^verbatim>\<open>mcpServers\<close>, and the removal deletes only
  \<^verbatim>\<open>reaper\<close>: the file ends with a key it did not have. On the file \<^verbatim>\<open>[]\<close> both
  merges raise \<^verbatim>\<open>TypeError\<close>, so the second call does not return \<^verbatim>\<open>False\<close>.
\<close>

theorem merge_idempotent_remove_restores_counterexample:
  "node_keys (node (snd (remove_json_config_key
       (snd (merge_json_config empty_object_file [''mcpServers'', ''reaper''] server_entry))
       [''mcpServers'', ''reaper''])))
     \<noteq> node_keys (node empty_object_file) \<and>
   fst (merge_json_config (snd (merge_json_config array_file [''reaper''] server_entry))
         [''reaper''] server_entry) \<noteq> Inr False"
  by (simp add: config_eval)


text \<open>
  Claim C10, as the code has it: when the file cannot be read (\<^verbatim>\<open>OSError\<close>) or holds
  text that is not blank and that \<^verbatim>\<open>json.loads\<close> rejects, \<^verbatim>\<open>merge_json_config\<close>
  returns \<^verbatim>\<open>False\<close> and leaves the file as it was, without a write.
\<close>

theorem merge_unparsable_unchanged:
  "node f = Unreadable \<or> node f = Readable Unparsable \<Longrightarrow>
   merge_json_config f key_path v = (Inr False, f)"
  by (auto simp: merge_json_config_def)


text \<open>The theorem at a file of text that is not JSON.\<close>

theorem merge_unparsable_unchanged_witness:
  "(node garbage_file = Unreadable \<or> node garbage_file = Readable Unparsable) \<and>
   merge_json_config garbage_file [''reaper''] server_entry = (Inr False, garbage_file)"
  using merge_unparsable_unchanged [of garbage_file "[''reaper'']" server_entry]
  by (simp add: garbage_file_def)


text \<open>
  Claim C10 as worded ("non-empty") fails on a file that holds only white space: the text
  is not empty and is not JSON, but \<^verbatim>\<open>text.strip()\<close> is empty, the merge starts from
  \<^verbatim>\<open>{}\<close>, overwrites the file and returns \<^verbatim>\<open>True\<close>.
\<close>

theorem merge_unparsable_unchanged_counterexample:
  "merge_json_config newline_file [''reaper''] server_entry =
     (Inr True, \<lparr>node = Readable (Document (JObj [(''reaper'', server_entry)])),
                  writes = [JObj [(''reaper'', server_entry)]]\<rparr>) \<and>
   node newline_file = Readable Whitespace"
  by (simp add: merge_json_config_def write_text_def newline_file_def)

section \<open>Facts about the loop and the write\<close>

lemma poll_terminates:
  "TIMEOUT cfg \<le> monotonic e (Suc n) - monotonic e 0 \<Longrightarrow> i \<le> n \<Longrightarrow>
   poll_loop cfg e cmd_id i d \<noteq> None"
proof (induction "n - i" arbitrary: i d)
  case 0
  then have "i = n" by simp
  with 0 show ?case by (subst poll_loop.simps) simp
next
  case (Suc k)
  from Suc.hyps(2) Suc.prems(2) have "k = n - Suc i" "Suc i \<le> n" by arith+
  then have step: "\<And>d'. poll_loop cfg e cmd_id (Suc i) d' \<noteq> None"
    using Suc.hyps(1) Suc.prems(1) by blast
  show ?case
    using step by (subst poll_loop.simps) (auto split: cycle_result.splits)
qed

lemma poll_loop_run:
  assumes sleep: "0 \<le> POLL_INTERVAL cfg"
  shows "(\<forall>j. i \<le> j \<and> j < i + n \<longrightarrow> monotonic e (Suc j) - monotonic e 0 < TIMEOUT cfg) \<Longrightarrow>
         TIMEOUT cfg \<le> monotonic e (Suc (i + n)) - monotonic e 0 \<Longrightarrow>
         poll_loop cfg e cmd_id i d =
           Some (case poll_cycles e cmd_id i n d of
                   Return r d' \<Rightarrow> (Inr r, d')
                 | Raise x d' \<Rightarrow> (Inl x, d')
                 | Sleep d' \<Rightarrow> (Inr (timeout_response cmd_id), d'))"
proof (induction n arbitrary: i d)
  case 0
  then show ?case by (subst poll_loop.simps) simp
next
  case (Suc n)
  from Suc.prems(1) have now: "monotonic e (Suc i) - monotonic e 0 < TIMEOUT cfg" by simp
  from Suc.prems(1) have later:
    "\<forall>j. Suc i \<le> j \<and> j < Suc i + n \<longrightarrow> monotonic e (Suc j) - monotonic e 0 < TIMEOUT cfg"
    by simp
  from Suc.prems(2) have deadline: "TIMEOUT cfg \<le> monotonic e (Suc (Suc i + n)) - monotonic e 0"
    by simp
  note step = Suc.IH[OF later deadline]
  show ?case
    using now sleep by (subst poll_loop.simps) (simp add: step split: cycle_result.splits)
qed

lemma failure_id: "\<exists>kvs. failure c m = JObj kvs \<and> get_id kvs = JStr c"
  by (simp add: failure_def get_id_def)

lemma poll_once_Return:
  "poll_once e cmd_id i d = Return r d' \<Longrightarrow> \<exists>kvs. r = JObj kvs \<and> get_id kvs = JStr cmd_id"
  by (auto simp: poll_once_def Let_def py_eq_JStr
           split: file_node.splits file_text.splits json.splits if_splits)

lemma poll_once_command:
  "poll_once e cmd_id i d = Return r d' \<or> poll_once e cmd_id i d = Raise x d' \<or>
   poll_once e cmd_id i d = Sleep d' \<Longrightarrow> command d' = command d \<and> temp d' = temp d"
  by (auto simp: poll_once_def observed_def Let_def
           split: option.splits file_node.splits file_text.splits json.splits if_splits)

lemma poll_result_id:
  assumes "poll_loop cfg e cmd_id i d = Some (Inr r, d')"
  shows "\<exists>kvs. r = JObj kvs \<and> get_id kvs = JStr cmd_id"
proof -
  have "\<forall>x. fst (Inr r :: py_error + json, d') = Inr x \<longrightarrow>
          (\<exists>kvs. x = JObj kvs \<and> get_id kvs = JStr cmd_id)"
    by (rule poll_loop.raw_induct
          [where P = "\<lambda>cfg e cmd_id i d out. \<forall>x. fst out = Inr x \<longrightarrow>
                        (\<exists>kvs. x = JObj kvs \<and> get_id kvs = JStr cmd_id)",
           rotated, OF assms])
       (auto split: if_splits cycle_result.splits dest: poll_once_Return
             simp: timeout_response_def failure_id)
  then show ?thesis by simp
qed

lemma poll_keeps_command:
  assumes "poll_loop cfg e cmd_id i d = Some out"
  shows "command (snd out) = command d"
  by (rule poll_loop.raw_induct
        [where P = "\<lambda>cfg e cmd_id i d out. command (snd out) = command d", rotated, OF assms])
     (auto split: if_splits cycle_result.splits dest: poll_once_command[OF disjI1]
        poll_once_command[OF disjI2, OF disjI1] poll_once_command[OF disjI2, OF disjI2])

lemmas channel_eval =
  send_command_def publish_def write_command_def unlinked_def command_envelope_def
  replaced_def writing_def poll_once_def observed_def get_id_def
  sample_dumps_def sample_settings_def empty_dir_def stale_dir_def stale_response_def
  quiet_env_def locked_env_def full_disk_env_def array_env_def garbage_env_def
  number_env_def answering_env_def stuck_unlink_env_def pong_def Let_def

lemmas four_cycles =
  poll_loop.simps [of _ _ _ 0] poll_loop.simps [of _ _ _ "Suc 0"]
  poll_loop.simps [of _ _ _ "Suc (Suc 0)"] poll_loop.simps [of _ _ _ "Suc (Suc (Suc 0))"]

lemma write_command_states:
  "s \<in> set (snd (write_command dumps e cmd d)) \<Longrightarrow>
   response s = response d \<and> (command s = command d \<or> command s = Some (dumps cmd))"
  by (auto simp: write_command_def Let_def writing_def replaced_def split: fault.splits)

lemma write_command_last:
  "fault e = NoFault \<Longrightarrow>
   fst (write_command dumps e cmd d) = None \<and>
   snd (write_command dumps e cmd d) =
     (d # map (writing d (tmp_name e) (dumps cmd)) [0..<length (dumps cmd)]) @
     [writing d (tmp_name e) (dumps cmd) (length (dumps cmd)), replaced d (tmp_name e) (dumps cmd)]"
  by (simp add: write_command_def Let_def)

lemma write_command_fails:
  "fault e \<noteq> NoFault \<Longrightarrow>
   fst (write_command dumps e cmd d) =
     Some (case fault e of MkstempFails m \<Rightarrow> m | WriteFails n m \<Rightarrow> m | ReplaceFails m \<Rightarrow> m
           | NoFault \<Rightarrow> []) \<and>
   command (last (snd (write_command dumps e cmd d))) = command d"
  by (cases "fault e") (simp_all add: write_command_def Let_def writing_def last_map del: upt_Suc)

lemma send_command_result_id:
  assumes "send_command dumps cfg e action params d = Some (Inr r, d')"
  shows "\<exists>kvs. r = JObj kvs \<and> get_id kvs = JStr (uuid4 e)"
proof (cases "mkdir_error e")
  case (Some msg)
  with assms show ?thesis by (simp add: send_command_def)
next
  case None
  show ?thesis
  proof (cases "fst (publish dumps e action params d)")
    case (Some msg)
    with None assms have "r = write_failure (uuid4 e) msg"
      by (auto simp: send_command_def split: prod.splits)
    then show ?thesis by (simp add: write_failure_def failure_id)
  next
    case no_error: None
    with None assms have
      "poll_loop cfg e (uuid4 e) 0 (last (snd (publish dumps e action params d))) = Some (Inr r, d')"
      by (auto simp: send_command_def split: prod.splits)
    then show ?thesis by (rule poll_result_id)
  qed
qed

lemma locked_run:
  "send_command sample_dumps sample_settings locked_env ''ping'' None stale_dir =
     Some (Inr (timeout_response ''new-id''),
           \<lparr>command = Some ''id;action;params;'', response = Missing, temp = Map.empty\<rparr>)"
  by (simp add: channel_eval four_cycles)

section \<open>The command channel: publishing\<close>

text \<open>
  Claim C1. Whatever the call meets, every state the directory goes through while the
  command is published has at the command path either what was there before the call
  (the previous command, or nothing) or the whole new envelope, never a part of it. When
  nothing fails, the last step is the replace: just before it the temporary file, in the
  directory, holds the whole envelope and the command path still has the old content,
  after it the command path holds the envelope and the temporary file is gone. When a
  step fails, the command path keeps its old content.
\<close>

theorem command_path_atomic:
  "(\<forall>s \<in> set (snd (publish dumps e action params d)).
       command s = command d \<or>
       command s = Some (dumps (command_envelope (uuid4 e) action params)))
   \<and> (fault e = NoFault \<longrightarrow>
        fst (publish dumps e action params d) = None \<and>
        (\<exists>earlier before after.
           snd (publish dumps e action params d) = earlier @ [before, after] \<and>
           temp before (tmp_name e) = Some (dumps (command_envelope (uuid4 e) action params)) \<and>
           command before = command d \<and>
           command after = Some (dumps (command_envelope (uuid4 e) action params)) \<and>
           temp after (tmp_name e) = None))
   \<and> (fault e \<noteq> NoFault \<longrightarrow>
        fst (publish dumps e action params d) \<noteq> None \<and>
        command (last (snd (publish dumps e action params d))) = command d)"
proof (intro conjI ballI impI)
  fix s assume "s \<in> set (snd (publish dumps e action params d))"
  then show "command s = command d \<or>
       command s = Some (dumps (command_envelope (uuid4 e) action params))"
    using write_command_states[of s dumps e _ "unlinked e d"]
    by (auto simp: publish_def unlinked_def split: if_splits)
next
  assume nf: "fault e = NoFault"
  show "fst (publish dumps e action params d) = None"
    using write_command_last[OF nf] by (simp add: publish_def)
  show "\<exists>earlier before after.
           snd (publish dumps e action params d) = earlier @ [before, after] \<and>
           temp before (tmp_name e) = Some (dumps (command_envelope (uuid4 e) action params)) \<and>
           command before = command d \<and>
           command after = Some (dumps (command_envelope (uuid4 e) action params)) \<and>
           temp after (tmp_name e) = None"
    using write_command_last[OF nf, of dumps "command_envelope (uuid4 e) action params" "unlinked e d"]
    by (auto simp: publish_def writing_def replaced_def unlinked_def)
next
  assume f: "fault e \<noteq> NoFault"
  show "fst (publish dumps e action params d) \<noteq> None"
    using write_command_fails[OF f] by (simp add: publish_def)
  show "command (last (snd (publish dumps e action params d))) = command d"
    using write_command_fails[OF f, of dumps _ "unlinked e d"] by (simp add: publish_def unlinked_def)
qed

text \<open>
  The theorem on a directory that holds an earlier command: a call that meets no fault,
  and a call whose write stops after three bytes.
\<close>

theorem command_path_atomic_witness:
  "fault quiet_env = NoFault \<and>
   fst (publish sample_dumps quiet_env ''ping'' None stale_dir) = None \<and>
   command (last (snd (publish sample_dumps quiet_env ''ping'' None stale_dir))) =
     Some ''id;action;params;'' \<and>
   fault full_disk_env \<noteq> NoFault \<and>
   command (last (snd (publish sample_dumps full_disk_env ''ping'' None stale_dir))) = Some ''old''"
  using command_path_atomic [of sample_dumps quiet_env "''ping''" None stale_dir]
    command_path_atomic [of sample_dumps full_disk_env "''ping''" None stale_dir]
  by (simp add: channel_eval)

text \<open>
  Claim C2, as the code has it. The \<^verbatim>\<open>unlink\<close> comes before the write, in a
  \<^verbatim>\<open>try\<close> whose \<^verbatim>\<open>except OSError: pass\<close> lets the call go on when the deletion fails.
  So: unless that \<^verbatim>\<open>unlink\<close> raises, there is no response file in any state of the
  publishing; and in every case a dict the call returns carries the identifier of this
  call, so that a response left with another identifier is never the answer.
\<close>

theorem stale_response_not_returned:
  "(\<not> unlink_error e \<longrightarrow>
      (\<forall>s \<in> set (snd (publish dumps e action params d)). response s = Missing))
   \<and> (send_command dumps cfg e action params d = Some (Inr r, d') \<longrightarrow>
        (\<exists>kvs. r = JObj kvs \<and> get_id kvs = JStr (uuid4 e)))"
proof (intro conjI impI ballI)
  fix s assume "\<not> unlink_error e" "s \<in> set (snd (publish dumps e action params d))"
  then show "response s = Missing"
    using write_command_states[of s dumps e _ "unlinked e d"]
    by (simp add: publish_def unlinked_def)
next
  assume "send_command dumps cfg e action params d = Some (Inr r, d')"
  then show "\<exists>kvs. r = JObj kvs \<and> get_id kvs = JStr (uuid4 e)"
    by (rule send_command_result_id)
qed

text \<open>
  The theorem on a directory with a response left by an earlier call: where the deletion
  works the file is gone when the command is written; where it fails the stale response
  is read by the loop, not returned, and the call ends in the timeout.
\<close>

theorem stale_response_not_returned_witness:
  "\<not> unlink_error quiet_env \<and>
   response (last (snd (publish sample_dumps quiet_env ''ping'' None stale_dir))) = Missing \<and>
   send_command sample_dumps sample_settings locked_env ''ping'' None stale_dir =
     Some (Inr (timeout_response ''new-id''),
           \<lparr>command = Some ''id;action;params;'', response = Missing, temp = Map.empty\<rparr>) \<and>
   (\<exists>kvs. timeout_response ''new-id'' = JObj kvs \<and> get_id kvs = JStr (uuid4 locked_env))"
  using stale_response_not_returned [of quiet_env sample_dumps "''ping''" None stale_dir
      sample_settings "timeout_response ''new-id''"
      "\<lparr>command = Some ''id;action;params;'', response = Missing, temp = Map.empty\<rparr>"]
    stale_response_not_returned [of locked_env sample_dumps "''ping''" None stale_dir
      sample_settings "timeout_response ''new-id''"
      "\<lparr>command = Some ''id;action;params;'', response = Missing, temp = Map.empty\<rparr>"]
    locked_run
  by (simp add: quiet_env_def publish_def write_command_def unlinked_def stale_dir_def
        replaced_def Let_def)

text \<open>
  Claim C2 as worded ("for every call ... deletes any pre-existing response file") fails
  where the \<^verbatim>\<open>unlink\<close> raises \<^verbatim>\<open>OSError\<close>: the new command is written, and the old
  response file is there in every state of the publishing.
\<close>

theorem stale_response_not_returned_counterexample:
  "response stale_dir \<noteq> Missing \<and>
   command (last (snd (publish sample_dumps locked_env ''ping'' None stale_dir))) =
     Some (sample_dumps (command_envelope ''new-id'' ''ping'' None)) \<and>
   list_all (\<lambda>s. response s = response stale_dir)
     (snd (publish sample_dumps locked_env ''ping'' None stale_dir))"
  by (simp add: channel_eval list_all_iff)

text \<open>
  Claim C9. With \<^verbatim>\<open>params\<close> \<^verbatim>\<open>None\<close> the envelope is the three fields \<^verbatim>\<open>id\<close>,
  \<^verbatim>\<open>action\<close>, \<^verbatim>\<open>params\<close> with \<^verbatim>\<open>{}\<close> as params; with any \<^verbatim>\<open>params\<close> it is these three
  fields and params is not \<^verbatim>\<open>null\<close>; and when the write meets no fault, the command
  file holds the serialised envelope, with \<^verbatim>\<open>{}\<close> as params, when the call ends.
\<close>

theorem envelope_params_object:
  "command_envelope cmd_id action None =
     JObj [(''id'', JStr cmd_id), (''action'', JStr action), (''params'', JObj [])]
   \<and> (\<exists>p. command_envelope cmd_id action params =
            JObj [(''id'', JStr cmd_id), (''action'', JStr action), (''params'', p)] \<and> p \<noteq> JNull)
   \<and> (mkdir_error e = None \<and> fault e = NoFault \<and>
        send_command dumps cfg e action None d = Some out \<longrightarrow>
          command (snd out) =
            Some (dumps (JObj [(''id'', JStr (uuid4 e)), (''action'', JStr action),
                               (''params'', JObj [])])))"
proof (intro conjI impI)
  show "command_envelope cmd_id action None =
     JObj [(''id'', JStr cmd_id), (''action'', JStr action), (''params'', JObj [])]"
    by (simp add: command_envelope_def)
  show "\<exists>p. command_envelope cmd_id action params =
            JObj [(''id'', JStr cmd_id), (''action'', JStr action), (''params'', p)] \<and> p \<noteq> JNull"
    by (cases params) (auto simp: command_envelope_def)
next
  assume h: "mkdir_error e = None \<and> fault e = NoFault \<and>
        send_command dumps cfg e action None d = Some out"
  then have nf: "fault e = NoFault" by simp
  let ?states = "snd (publish dumps e action None d)"
  have pub: "fst (publish dumps e action None d) = None"
    "command (last ?states) = Some (dumps (command_envelope (uuid4 e) action None))"
    using write_command_last[OF nf, of dumps "command_envelope (uuid4 e) action None" "unlinked e d"]
    by (simp_all add: publish_def replaced_def)
  from h pub(1) have "poll_loop cfg e (uuid4 e) 0 (last ?states) = Some out"
    by (auto simp: send_command_def split: prod.splits)
  from poll_keeps_command[OF this] pub(2)
  show "command (snd out) =
            Some (dumps (JObj [(''id'', JStr (uuid4 e)), (''action'', JStr action),
                               (''params'', JObj [])]))"
    by (simp add: command_envelope_def)
qed

text \<open>The theorem on a call that publishes its command and then times out.\<close>

theorem envelope_params_object_witness:
  "mkdir_error locked_env = None \<and> fault locked_env = NoFault \<and>
   send_command sample_dumps sample_settings locked_env ''ping'' None stale_dir =
     Some (Inr (timeout_response ''new-id''),
           \<lparr>command = Some ''id;action;params;'', response = Missing, temp = Map.empty\<rparr>) \<and>
   sample_dumps (JObj [(''id'', JStr ''new-id''), (''action'', JStr ''ping''), (''params'', JObj [])])
     = ''id;action;params;''"
  using envelope_params_object [of "''new-id''" "''ping''" None locked_env sample_dumps
      sample_settings stale_dir
      "(Inr (timeout_response ''new-id''),
        \<lparr>command = Some ''id;action;params;'', response = Missing, temp = Map.empty\<rparr>)"]
    locked_run
  by (simp add: locked_env_def quiet_env_def sample_dumps_def)

text \<open>
  Claim C5. When \<^verbatim>\<open>mkstemp\<close>, the write or \<^verbatim>\<open>os.replace\<close> raises \<^verbatim>\<open>OSError\<close>, the
  call returns the failure dict (\<^verbatim>\<open>success\<close> false, the error message after "Failed to
  write command file: ") at once: the result is fixed by the publishing alone, no clock
  reading, no look at the response path and no second attempt enter it, and the command
  path keeps its old content.
\<close>

theorem write_failure_immediate:
  assumes "mkdir_error e = None" and "fault e \<noteq> NoFault"
  shows "send_command dumps cfg e action params d =
           Some (Inr (write_failure (uuid4 e)
                        (case fault e of MkstempFails m \<Rightarrow> m | WriteFails n m \<Rightarrow> m
                         | ReplaceFails m \<Rightarrow> m | NoFault \<Rightarrow> [])),
                 last (snd (publish dumps e action params d)))
         \<and> command (last (snd (publish dumps e action params d))) = command d"
  using assms write_command_fails[OF assms(2), of dumps "command_envelope (uuid4 e) action params"
      "unlinked e d"]
  by (auto simp: send_command_def publish_def unlinked_def split: prod.splits)

text \<open>The theorem on a disk that is full after three bytes.\<close>

theorem write_failure_immediate_witness:
  "mkdir_error full_disk_env = None \<and> fault full_disk_env \<noteq> NoFault \<and>
   send_command sample_dumps sample_settings full_disk_env ''ping'' None stale_dir =
     Some (Inr (JObj [(''id'', JStr ''new-id''), (''success'', JBool False), (''result'', JNull),
                      (''error'', JStr ''Failed to write command file: No space left on device'')]),
           \<lparr>command = Some ''old'', response = Missing, temp = [''tmpq3x.tmp'' \<mapsto> ''id;'']\<rparr>)"
  using write_failure_immediate [of full_disk_env sample_dumps sample_settings "''ping''" None stale_dir]
  by (simp add: channel_eval write_failure_def failure_def)

section \<open>The command channel: polling\<close>

text \<open>
  Claim C3, as the code has it. A response whose \<^verbatim>\<open>id\<close> is not the identifier of the
  command is not returned, and the loop goes on with the next cycle, as long as the
  deadline has not passed. The file is not left on disk: it was deleted right after the
  read, before the parse; it stays only when that \<^verbatim>\<open>unlink\<close> raises \<^verbatim>\<open>OSError\<close>.
\<close>

theorem mismatched_response_ignored:
  assumes "response (observed e i d) = Readable (Document (JObj kvs))"
    and "get_id kvs \<noteq> JStr cmd_id"
    and "monotonic e (Suc i) - monotonic e 0 < TIMEOUT cfg"
    and "0 \<le> POLL_INTERVAL cfg"
  shows "poll_loop cfg e cmd_id i d =
           poll_loop cfg e cmd_id (Suc i)
             (if poll_unlink_error e i then observed e i d
              else (observed e i d)\<lparr>response := Missing\<rparr>)"
  using assms
  by (subst poll_loop.simps) (simp add: poll_once_def Let_def py_eq_JStr)

text \<open>The theorem on the response an earlier call has left.\<close>

theorem mismatched_response_ignored_witness:
  "response (observed quiet_env 0 stale_dir) =
     Readable (Document (JObj [(''id'', JStr ''old-id''), (''success'', JBool True),
                               (''result'', JNull)])) \<and>
   get_id [(''id'', JStr ''old-id''), (''success'', JBool True), (''result'', JNull)]
     \<noteq> JStr ''new-id'' \<and>
   monotonic quiet_env (Suc 0) - monotonic quiet_env 0 < TIMEOUT sample_settings \<and>
   0 \<le> POLL_INTERVAL sample_settings \<and>
   poll_loop sample_settings quiet_env ''new-id'' 0 stale_dir =
     poll_loop sample_settings quiet_env ''new-id'' (Suc 0) (stale_dir\<lparr>response := Missing\<rparr>)"
  using mismatched_response_ignored [of quiet_env 0 stale_dir
      "[(''id'', JStr ''old-id''), (''success'', JBool True), (''result'', JNull)]"
      "''new-id''" sample_settings]
  by (simp add: observed_def quiet_env_def stale_dir_def stale_response_def get_id_def
        sample_settings_def)

text \<open>
  Claim C3 as worded ("left on disk for the next poll cycle's re-check") fails: after the
  cycle that has read the response of an earlier call, the response path is empty.
\<close>

theorem mismatched_response_ignored_counterexample:
  "response stale_dir =
     Readable (Document (JObj [(''id'', JStr ''old-id''), (''success'', JBool True),
                               (''result'', JNull)])) \<and>
   poll_once quiet_env ''new-id'' 0 stale_dir = Sleep (stale_dir\<lparr>response := Missing\<rparr>) \<and>
   response (stale_dir\<lparr>response := Missing\<rparr>) \<noteq> response stale_dir"
  by (simp add: channel_eval)

text \<open>
  Claim C6, as the code has it. With a sleep length that is not negative:
  \<^item> in a cycle before the deadline where the response file is there and its read raises
    \<^verbatim>\<open>OSError\<close>, or its text is not JSON, the attempt is dropped and the loop goes on
    with the next cycle;
  \<^item> in a cycle before the deadline where the file holds an object with the identifier of
    the command, the loop returns that object and the file is gone, unless the
    \<^verbatim>\<open>unlink\<close> raises \<^verbatim>\<open>OSError\<close>: then what was read is dropped, the file stays and
    the loop goes on with the next cycle;
  \<^item> when reading \<open>Suc n\<close> of the clock is the first at or past the deadline, the call
    returns a value in two cases only: the response a cycle among the first \<open>n\<close> has
    returned, or the timeout dict when each of these \<open>n\<close> cycles has been dropped;
  \<^item> a dict the loop returns carries the identifier of the command.
\<close>

theorem malformed_response_ignored:
  assumes "0 \<le> POLL_INTERVAL cfg"
  shows
    "(monotonic e (Suc i) - monotonic e 0 < TIMEOUT cfg \<and>
      response (observed e i d) \<in>
        {Unreadable, Readable Empty, Readable Whitespace, Readable Unparsable} \<longrightarrow>
        poll_loop cfg e cmd_id i d =
          poll_loop cfg e cmd_id (Suc i)
            (if response (observed e i d) = Unreadable \<or> poll_unlink_error e i
             then observed e i d
             else (observed e i d)\<lparr>response := Missing\<rparr>))
     \<and> (monotonic e (Suc i) - monotonic e 0 < TIMEOUT cfg \<and>
          response (observed e i d) = Readable (Document (JObj kvs)) \<and>
          get_id kvs = JStr cmd_id \<longrightarrow>
            poll_loop cfg e cmd_id i d =
              (if poll_unlink_error e i then poll_loop cfg e cmd_id (Suc i) (observed e i d)
               else Some (Inr (JObj kvs), (observed e i d)\<lparr>response := Missing\<rparr>)))
     \<and> ((\<forall>j<n. monotonic e (Suc j) - monotonic e 0 < TIMEOUT cfg) \<and>
          TIMEOUT cfg \<le> monotonic e (Suc n) - monotonic e 0 \<longrightarrow>
            (poll_loop cfg e cmd_id 0 d = Some (Inr r, d') \<longleftrightarrow>
               poll_cycles e cmd_id 0 n d = Return r d' \<or>
               (poll_cycles e cmd_id 0 n d = Sleep d' \<and> r = timeout_response cmd_id)))
     \<and> (poll_loop cfg e cmd_id i d = Some (Inr r, d') \<longrightarrow>
          (\<exists>fields. r = JObj fields \<and> get_id fields = JStr cmd_id))"
proof (intro conjI impI)
  assume "monotonic e (Suc i) - monotonic e 0 < TIMEOUT cfg \<and>
      response (observed e i d) \<in>
        {Unreadable, Readable Empty, Readable Whitespace, Readable Unparsable}"
  then show "poll_loop cfg e cmd_id i d =
          poll_loop cfg e cmd_id (Suc i)
            (if response (observed e i d) = Unreadable \<or> poll_unlink_error e i
             then observed e i d
             else (observed e i d)\<lparr>response := Missing\<rparr>)"
    using assms by (subst poll_loop.simps) (auto simp: poll_once_def Let_def)
next
  assume "monotonic e (Suc i) - monotonic e 0 < TIMEOUT cfg \<and>
          response (observed e i d) = Readable (Document (JObj kvs)) \<and>
          get_id kvs = JStr cmd_id"
  then show "poll_loop cfg e cmd_id i d =
              (if poll_unlink_error e i then poll_loop cfg e cmd_id (Suc i) (observed e i d)
               else Some (Inr (JObj kvs), (observed e i d)\<lparr>response := Missing\<rparr>))"
    using assms by (subst poll_loop.simps) (simp add: poll_once_def Let_def py_eq_JStr)
next
  assume h: "(\<forall>j<n. monotonic e (Suc j) - monotonic e 0 < TIMEOUT cfg) \<and>
          TIMEOUT cfg \<le> monotonic e (Suc n) - monotonic e 0"
  have "poll_loop cfg e cmd_id 0 d =
           Some (case poll_cycles e cmd_id 0 n d of
                   Return r d' \<Rightarrow> (Inr r, d')
                 | Raise x d' \<Rightarrow> (Inl x, d')
                 | Sleep d' \<Rightarrow> (Inr (timeout_response cmd_id), d'))"
    using h by (intro poll_loop_run[OF assms]) simp_all
  then show "poll_loop cfg e cmd_id 0 d = Some (Inr r, d') \<longleftrightarrow>
               poll_cycles e cmd_id 0 n d = Return r d' \<or>
               (poll_cycles e cmd_id 0 n d = Sleep d' \<and> r = timeout_response cmd_id)"
    by (cases "poll_cycles e cmd_id 0 n d") auto
next
  assume "poll_loop cfg e cmd_id i d = Some (Inr r, d')"
  then show "\<exists>fields. r = JObj fields \<and> get_id fields = JStr cmd_id"
    by (rule poll_result_id)
qed

text \<open>
  The theorem on a host that first writes text that is not JSON and then, in the next
  cycle, the answer: the first cycle is dropped, the second returns the answer, and so
  does the call. And on a host that never writes: three cycles, then the timeout.
\<close>

theorem malformed_response_ignored_witness:
  "0 \<le> POLL_INTERVAL sample_settings \<and>
   monotonic answering_env (Suc 0) - monotonic answering_env 0 < TIMEOUT sample_settings \<and>
   response (observed answering_env 0 empty_dir) = Readable Unparsable \<and>
   poll_loop sample_settings answering_env ''new-id'' 0 empty_dir =
     poll_loop sample_settings answering_env ''new-id'' (Suc 0) empty_dir \<and>
   monotonic answering_env (Suc (Suc 0)) - monotonic answering_env 0 < TIMEOUT sample_settings \<and>
   response (observed answering_env (Suc 0) empty_dir) = Readable (Document (JObj pong)) \<and>
   get_id pong = JStr ''new-id'' \<and>
   poll_loop sample_settings answering_env ''new-id'' (Suc 0) empty_dir =
     Some (Inr (JObj pong), empty_dir) \<and>
   (\<forall>j. j < 3 = (monotonic quiet_env (Suc j) - monotonic quiet_env 0 < TIMEOUT sample_settings)) \<and>
   poll_cycles quiet_env ''new-id'' 0 (Suc (Suc (Suc 0))) empty_dir = Sleep empty_dir \<and>
   poll_loop sample_settings quiet_env ''new-id'' 0 empty_dir =
     Some (Inr (timeout_response ''new-id''), empty_dir)"
proof -
  have sleep: "0 \<le> POLL_INTERVAL sample_settings"
    by (simp add: sample_settings_def)
  have first: "monotonic answering_env (Suc 0) - monotonic answering_env 0 < TIMEOUT sample_settings"
    and garbage: "response (observed answering_env 0 empty_dir) = Readable Unparsable"
    by (simp_all add: answering_env_def quiet_env_def sample_settings_def observed_def)
  have second:
    "monotonic answering_env (Suc (Suc 0)) - monotonic answering_env 0 < TIMEOUT sample_settings"
    and answer: "response (observed answering_env (Suc 0) empty_dir) = Readable (Document (JObj pong))"
    and id: "get_id pong = JStr ''new-id''"
    by (simp_all add: answering_env_def quiet_env_def sample_settings_def observed_def pong_def
          get_id_def)
  have clock:
    "\<forall>j. j < 3 = (monotonic quiet_env (Suc j) - monotonic quiet_env 0 < TIMEOUT sample_settings)"
    by (auto simp: quiet_env_def sample_settings_def)
  have cycles: "poll_cycles quiet_env ''new-id'' 0 (Suc (Suc (Suc 0))) empty_dir = Sleep empty_dir"
    by (simp add: poll_once_def observed_def quiet_env_def empty_dir_def)
  have dropped:
    "poll_loop sample_settings answering_env ''new-id'' 0 empty_dir =
       poll_loop sample_settings answering_env ''new-id'' (Suc 0) empty_dir"
    using malformed_response_ignored [OF sleep, where e = answering_env and i = 0
        and d = empty_dir and cmd_id = "''new-id''", THEN conjunct1] first garbage
    by (simp add: answering_env_def quiet_env_def observed_def empty_dir_def)
  have returned:
    "poll_loop sample_settings answering_env ''new-id'' (Suc 0) empty_dir =
       Some (Inr (JObj pong), empty_dir)"
    using malformed_response_ignored [OF sleep, where e = answering_env and i = "Suc 0"
        and d = empty_dir and cmd_id = "''new-id''" and kvs = pong,
        THEN conjunct2, THEN conjunct1] second answer id
    by (simp add: answering_env_def quiet_env_def observed_def empty_dir_def)
  have timeout:
    "poll_loop sample_settings quiet_env ''new-id'' 0 empty_dir =
       Some (Inr (timeout_response ''new-id''), empty_dir)"
    using malformed_response_ignored [OF sleep, where e = quiet_env
        and n = "Suc (Suc (Suc 0))" and d = empty_dir and cmd_id = "''new-id''"
        and r = "timeout_response ''new-id''" and d' = empty_dir,
        THEN conjunct2, THEN conjunct2, THEN conjunct1] clock cycles
    by (simp add: quiet_env_def sample_settings_def less_Suc_eq)
  from sleep first garbage dropped second answer id returned clock cycles timeout
  show ?thesis by blast
qed

text \<open>
  Claim C6 as worded fails in its last part ("the call only fails with the timeout outcome
  if the deadline passes without ever seeing a valid matching response"): the answer is
  at the response path from the first cycle on and is read in every cycle, but each
  \<^verbatim>\<open>unlink\<close> raises \<^verbatim>\<open>OSError\<close>, which the \<^verbatim>\<open>except\<close> clause catches before the text
  is parsed; the call ends in the timeout, with the answer still on disk.
\<close>

theorem malformed_response_ignored_counterexample:
  "response (observed stuck_unlink_env 0 empty_dir) = Readable (Document (JObj pong)) \<and>
   get_id pong = JStr (uuid4 stuck_unlink_env) \<and>
   send_command sample_dumps sample_settings stuck_unlink_env ''ping'' None empty_dir =
     Some (Inr (timeout_response ''new-id''),
           \<lparr>command = Some ''id;action;params;'', response = Readable (Document (JObj pong)),
              temp = Map.empty\<rparr>)"
  by (simp add: channel_eval four_cycles)

text \<open>
  Claim C4 does not hold of the code. The clock passes the deadline at its fourth
  reading and no response with the identifier of the command is ever at the response path;
  the host writes the JSON text \<^verbatim>\<open>42\<close> before the third cycle. \<^verbatim>\<open>json.loads\<close> returns an
  \<^verbatim>\<open>int\<close>, \<^verbatim>\<open>response.get\<close> raises \<^verbatim>\<open>AttributeError\<close>, and the call raises in the third
  cycle where the claim has it return the timeout outcome.
\<close>

theorem unanswered_call_raises:
  "(\<forall>j. host number_env j = (if j = 2 then Some (Readable (Document (JInt 42))) else None)) \<and>
   monotonic number_env 3 - monotonic number_env 0 < TIMEOUT sample_settings \<and>
   TIMEOUT sample_settings \<le> monotonic number_env 4 - monotonic number_env 0 \<and>
   send_command sample_dumps sample_settings number_env ''ping'' None empty_dir =
     Some (Inl AttributeError,
           \<lparr>command = Some ''id;action;params;'', response = Missing, temp = Map.empty\<rparr>)"
  by (simp add: channel_eval four_cycles)

text \<open>
  Claim C7 does not hold of the code. A response file that holds the JSON text
  \<^verbatim>\<open>[]\<close> is parsed to a list, \<^verbatim>\<open>response.get\<close> raises \<^verbatim>\<open>AttributeError\<close>, and the
  \<^verbatim>\<open>except\<close> clause, which names \<^verbatim>\<open>JSONDecodeError\<close> and \<^verbatim>\<open>OSError\<close>, lets it
  through: the call raises.
\<close>

theorem non_object_response_raises:
  "send_command sample_dumps sample_settings array_env ''ping'' None empty_dir =
     Some (Inl AttributeError,
           \<lparr>command = Some ''id;action;params;'', response = Missing, temp = Map.empty\<rparr>)"
  by (simp add: channel_eval poll_loop.simps [of _ _ _ 0])

end
